theory Spec2Isabelle
  imports Main "HOL-Library.Word"
begin

section \<open>Python values, errors and results\<close>

text \<open>
  The module \<^verbatim>\<open>pywebio/output.py\<close> builds dictionaries and hands them to a session.
  Values that end up inside an instruction are modelled by \<open>pyval\<close>; a Python \<open>dict\<close>
  with string keys is an association list in insertion order. A Python \<open>str\<close> is a
  \<open>string\<close>, one \<open>char\<close> per code point below 256.
\<close>

datatype pyval =
    PNone
  | PBool bool
  | PInt int
  | PStr string
  | PList "pyval list"
  | PTuple "pyval list"
  | PDict "(string \<times> pyval) list"

datatype error =
    AssertionError string
  | IndexError
  | AttributeError

datatype 'a result = Raises error | Returns 'a

type_synonym pydict = "(string \<times> pyval) list"

text \<open>\<^verbatim>\<open>d[k] = v\<close>: an existing key keeps its position, a new key goes last.\<close>

fun dict_set :: "string \<Rightarrow> pyval \<Rightarrow> pydict \<Rightarrow> pydict" where
  "dict_set k v [] = [(k, v)]"
| "dict_set k v ((k', v') # d) =
     (if k' = k then (k', v) # d else (k', v') # dict_set k v d)"

text \<open>\<^verbatim>\<open>d.update(other)\<close>\<close>

definition dict_update :: "pydict \<Rightarrow> pydict \<Rightarrow> pydict" where
  "dict_update d other = foldl (\<lambda>acc (k, v). dict_set k v acc) d other"

text \<open>\<^verbatim>\<open>k in d\<close>\<close>

definition dict_has :: "string \<Rightarrow> pydict \<Rightarrow> bool" where
  "dict_has k d = (map_of d k \<noteq> None)"

text \<open>Truthiness of an optional string argument: \<open>None\<close> and \<open>''\<close> are falsy.\<close>

fun truthy :: "string option \<Rightarrow> bool" where
  "truthy None = False"
| "truthy (Some s) = (s \<noteq> [])"

section \<open>Sessions and the boundary to the rest of the package\<close>

type_synonym session = nat

record registration =
  reg_onclick :: nat
  reg_save :: pyval
  reg_mutex_mode :: bool

text \<open>
  The state the module reads and writes: \<^verbatim>\<open>Global.active_ws\<close>, the outbound messages
  of every session, the callbacks registered so far, and the identifiers the callback
  registry hands out (the \<open>n\<close>-th registration receives \<open>callback_ids n\<close>; the module
  treats them as opaque).
\<close>

record world =
  active_ws :: session
  outbox :: "session \<Rightarrow> pyval list"
  registered :: "registration list"
  callback_ids :: "nat \<Rightarrow> string"

text \<open>
  Modelled from the spec: the method \<^verbatim>\<open>add_server_msg\<close> of a session object
  (\<^verbatim>\<open>pywebio.framework\<close>, not part of the sources). The envelope is handed to the target
  session's outbound message queue.
\<close>

definition add_server_msg :: "session \<Rightarrow> pyval \<Rightarrow> world \<Rightarrow> world" where
  "add_server_msg ws msg w = w\<lparr>outbox := (outbox w)(ws := outbox w ws @ [msg])\<rparr>"

text \<open>
  Modelled from the spec: \<^verbatim>\<open>send_msg\<close> of \<^verbatim>\<open>pywebio.io_ctrl\<close> (not part of the sources).
  It wraps the command and its spec in one envelope and dispatches it to the active
  session.
\<close>

definition send_msg :: "string \<Rightarrow> pyval \<Rightarrow> world \<Rightarrow> world" where
  "send_msg cmd spec w =
     add_server_msg (active_ws w) (PDict [(''command'', PStr cmd), (''spec'', spec)]) w"

text \<open>
  Modelled from the spec: \<^verbatim>\<open>output_register_callback\<close> of \<^verbatim>\<open>pywebio.io_ctrl\<close> (not part
  of the sources). It records the handler with its save payload and mutex flag and
  returns an opaque identifier.
\<close>

definition output_register_callback ::
  "nat \<Rightarrow> pyval \<Rightarrow> bool \<Rightarrow> world \<Rightarrow> string \<times> world" where
  "output_register_callback onclick save mutex_mode w =
     (callback_ids w (length (registered w)),
      w\<lparr>registered := registered w @
          [\<lparr>reg_onclick = onclick, reg_save = save, reg_mutex_mode = mutex_mode\<rparr>]\<rparr>)"

section \<open>Environment and anchor control\<close>




text \<open>\<^verbatim>\<open>_AnchorTPL % name\<close> with \<^verbatim>\<open>_AnchorTPL = 'pywebio-anchor-%s'\<close> and a string \<open>name\<close>.\<close>

definition AnchorTPL :: "string \<Rightarrow> string" where
  "AnchorTPL name = ''pywebio-anchor-'' @ name"

definition set_anchor :: "string \<Rightarrow> world \<Rightarrow> world" where
  "set_anchor name w =
     (let inner_ancher_name = AnchorTPL name
      in send_msg ''output_ctl'' (PDict [(''set_anchor'', PStr inner_ancher_name)]) w)"

definition clear_before :: "string \<Rightarrow> world \<Rightarrow> world" where
  "clear_before anchor w =
     (let inner_ancher_name = AnchorTPL anchor
      in send_msg ''output_ctl'' (PDict [(''clear_before'', PStr inner_ancher_name)]) w)"

definition clear_after :: "string \<Rightarrow> world \<Rightarrow> world" where
  "clear_after anchor w =
     (let inner_ancher_name = AnchorTPL anchor
      in send_msg ''output_ctl'' (PDict [(''clear_after'', PStr inner_ancher_name)]) w)"

definition clear_range :: "string \<Rightarrow> string \<Rightarrow> world \<Rightarrow> world" where
  "clear_range start_anchor end_anchor w =
     (let inner_start_anchor_name = ''pywebio-anchor-'' @ start_anchor;
          inner_end_ancher_name = ''pywebio-anchor-'' @ end_anchor
      in send_msg ''output_ctl''
           (PDict [(''clear_range'',
              PList [PStr inner_start_anchor_name, PStr inner_end_ancher_name])]) w)"

definition scroll_to :: "string \<Rightarrow> world \<Rightarrow> world" where
  "scroll_to anchor w =
     (let inner_ancher_name = ''pywebio-anchor-'' @ anchor
      in send_msg ''output_ctl'' (PDict [(''scroll_to'', PStr inner_ancher_name)]) w)"

section \<open>The shared assembly step\<close>

definition before_after_msg :: string where
  "before_after_msg = ''Parameter 'before' and 'after' cannot be specified at the same time''"

text \<open>
  The dictionary \<open>spec\<close> that \<^verbatim>\<open>_put_content\<close> builds: the type, the other fields, and
  the positioning fields that are truthy, each as an anchor tag; \<open>after\<close> is looked at
  only when \<open>before\<close> is falsy.
\<close>

definition content_spec ::
  "string \<Rightarrow> string option \<Rightarrow> string option \<Rightarrow> string option \<Rightarrow> pydict \<Rightarrow> pydict" where
  "content_spec ty anchor before after other_spec =
     (let spec0 = dict_update [(''type'', PStr ty)] other_spec;
          spec1 = (case anchor of
                     Some a \<Rightarrow> if a \<noteq> [] then dict_set ''anchor'' (PStr (AnchorTPL a)) spec0
                               else spec0
                   | None \<Rightarrow> spec0)
      in (if truthy before then
            (case before of
               Some b \<Rightarrow> dict_set ''before'' (PStr (AnchorTPL b)) spec1
             | None \<Rightarrow> spec1)
          else if truthy after then
            (case after of
               Some a \<Rightarrow> dict_set ''after'' (PStr (AnchorTPL a)) spec1
             | None \<Rightarrow> spec1)
          else spec1))"

text \<open>
  \<^verbatim>\<open>_put_content(type, ws=None, anchor=None, before=None, after=None, **other_spec)\<close>.
  The result pairs what the call does (raise or return) with the state it leaves. The
  target is \<^verbatim>\<open>ws or Global.active_ws\<close>; a session object is truthy.
\<close>

definition put_content ::
  "string \<Rightarrow> session option \<Rightarrow> string option \<Rightarrow> string option \<Rightarrow> string option \<Rightarrow>
   pydict \<Rightarrow> world \<Rightarrow> unit result \<times> world" where
  "put_content ty ws anchor before after other_spec w =
     (if truthy before \<and> truthy after then (Raises (AssertionError before_after_msg), w)
      else
        let spec = content_spec ty anchor before after other_spec;
            msg = PDict [(''command'', PStr ''output''), (''spec'', PDict spec)]
        in (Returns (),
            add_server_msg (case ws of Some s \<Rightarrow> s | None \<Rightarrow> active_ws w) msg w))"

section \<open>Content output\<close>

definition put_text ::
  "string \<Rightarrow> bool \<Rightarrow> string option \<Rightarrow> string option \<Rightarrow> string option \<Rightarrow> world \<Rightarrow>
   unit result \<times> world" where
  "put_text text inline anchor before after w =
     put_content ''text'' None anchor before after
       [(''content'', PStr text), (''inline'', PBool inline)] w"

definition put_html ::
  "string \<Rightarrow> string option \<Rightarrow> string option \<Rightarrow> string option \<Rightarrow> world \<Rightarrow>
   unit result \<times> world" where
  "put_html html anchor before after w =
     put_content ''html'' None anchor before after [(''content'', PStr html)] w"

subsection \<open>String methods used by the Markdown operations\<close>

text \<open>\<^verbatim>\<open>sep.join(xs)\<close>\<close>

fun join :: "string \<Rightarrow> string list \<Rightarrow> string" where
  "join sep [] = []"
| "join sep [x] = x"
| "join sep (x # y # xs) = x @ sep @ join sep (y # xs)"

text \<open>
  The line boundaries of \<^verbatim>\<open>str.splitlines\<close> below code point 256, apart from carriage
  return: LF, VT, FF, FS, GS, RS and NEL.
\<close>

definition linebreak :: "char \<Rightarrow> bool" where
  "linebreak c = (c \<in> set [CHR 0x0A, CHR 0x0B, CHR 0x0C, CHR 0x1C, CHR 0x1D, CHR 0x1E, CHR 0x85])"

text \<open>
  \<^verbatim>\<open>s.splitlines()\<close>: \<open>cur\<close> is the line read so far; CR LF counts as one boundary; a
  boundary at the very end opens no further line.
\<close>

fun splitlines_from :: "string \<Rightarrow> string \<Rightarrow> string list" where
  "splitlines_from cur [] = (if cur = [] then [] else [cur])"
| "splitlines_from cur (c # cs) =
     (if c = CHR 0x0D then
        (case cs of
           [] \<Rightarrow> [cur]
         | d # ds \<Rightarrow> if d = CHR 0x0A then cur # splitlines_from [] ds
                     else cur # splitlines_from [] (d # ds))
      else if linebreak c then cur # splitlines_from [] cs
      else splitlines_from (cur @ [c]) cs)"

definition splitlines :: "string \<Rightarrow> string list" where
  "splitlines s = splitlines_from [] s"

text \<open>The characters below code point 256 for which \<^verbatim>\<open>str.isspace\<close> holds.\<close>

definition isspace :: "char \<Rightarrow> bool" where
  "isspace c = (c \<in> set [CHR 0x09, CHR 0x0A, CHR 0x0B, CHR 0x0C, CHR 0x0D,
                         CHR 0x1C, CHR 0x1D, CHR 0x1E, CHR 0x1F, CHR 0x20, CHR 0x85, CHR 0xA0])"

definition lstrip :: "string \<Rightarrow> string" where
  "lstrip s = dropWhile isspace s"

text \<open>The slices \<^verbatim>\<open>s[:n]\<close> and \<^verbatim>\<open>s[n:]\<close>; a negative \<open>n\<close> counts from the end.\<close>

definition slice_to :: "int \<Rightarrow> string \<Rightarrow> string" where
  "slice_to n s = (if 0 \<le> n then take (nat n) s else take (length s - nat (- n)) s)"

definition slice_from :: "int \<Rightarrow> string \<Rightarrow> string" where
  "slice_from n s = (if 0 \<le> n then drop (nat n) s else drop (length s - nat (- n)) s)"

text \<open>One line of the \<^verbatim>\<open>strip_indent\<close> pass of \<^verbatim>\<open>put_markdown\<close>.\<close>

definition strip_indent_line :: "int \<Rightarrow> string \<Rightarrow> string" where
  "strip_indent_line strip_indent i =
     (if slice_to strip_indent i = replicate (nat strip_indent) (CHR '' '')
      then slice_from strip_indent i else i)"

text \<open>The Markdown source \<^verbatim>\<open>put_markdown\<close> sends, after both optional passes.\<close>

definition markdown_source :: "string \<Rightarrow> int \<Rightarrow> bool \<Rightarrow> string" where
  "markdown_source mdcontent strip_indent lstrip_flag =
     (let md1 = (if strip_indent \<noteq> 0
                 then join ''\<newline>'' (map (strip_indent_line strip_indent) (splitlines mdcontent))
                 else mdcontent);
          md2 = (if lstrip_flag
                 then join ''\<newline>'' (map lstrip (splitlines md1))
                 else md1)
      in md2)"

definition put_markdown ::
  "string \<Rightarrow> int \<Rightarrow> bool \<Rightarrow> string option \<Rightarrow> string option \<Rightarrow> string option \<Rightarrow> world \<Rightarrow>
   unit result \<times> world" where
  "put_markdown mdcontent strip_indent lstrip_flag anchor before after w =
     put_content ''markdown'' None anchor before after
       [(''content'', PStr (markdown_source mdcontent strip_indent lstrip_flag))] w"

text \<open>\<^verbatim>\<open>"```%s\n%s\n```" % (langage, content)\<close>\<close>

definition code_fence :: "string \<Rightarrow> string \<Rightarrow> string" where
  "code_fence langage content = ''```'' @ langage @ ''\<newline>'' @ content @ ''\<newline>```''"

definition put_code ::
  "string \<Rightarrow> string \<Rightarrow> string option \<Rightarrow> string option \<Rightarrow> string option \<Rightarrow> world \<Rightarrow>
   unit result \<times> world" where
  "put_code content langage anchor before after w =
     (let code = code_fence langage content
      in put_markdown code 0 False anchor before after w)"

text \<open>\<^verbatim>\<open>put_code(content)\<close>: every optional parameter at its default.\<close>

definition put_code_default :: "string \<Rightarrow> world \<Rightarrow> unit result \<times> world" where
  "put_code_default content w = put_code content '''' None None None w"

subsection \<open>Tables\<close>

text \<open>
  A table cell is \<open>None\<close>, a boolean, an integer or a string. An element of \<open>tdata\<close>
  is a list of cells, a dictionary from column names to cells, or a string (a string is
  a sequence of one-character strings).
\<close>

datatype cell = CNone | CBool bool | CInt int | CStr string

datatype row = RList "cell list" | RDict "(string \<times> cell) list" | RStr string

text \<open>\<^verbatim>\<open>str(n)\<close> for an integer: decimal digits, with a minus sign when negative.\<close>

fun str_nat :: "nat \<Rightarrow> string" where
  "str_nat n =
     (if n < 10 then [''0123456789'' ! n]
      else str_nat (n div 10) @ [''0123456789'' ! (n mod 10)])"

definition str_int :: "int \<Rightarrow> string" where
  "str_int i = (if i < 0 then CHR ''-'' # str_nat (nat (- i)) else str_nat (nat i))"

text \<open>\<^verbatim>\<open>str(data)\<close>\<close>

fun str_cell :: "cell \<Rightarrow> string" where
  "str_cell CNone = ''None''"
| "str_cell (CBool b) = (if b then ''True'' else ''False'')"
| "str_cell (CInt i) = str_int i"
| "str_cell (CStr s) = s"

text \<open>\<^verbatim>\<open>s.replace('|', r'\|')\<close>: every pipe becomes a backslash followed by a pipe.\<close>

definition replace_pipe :: "string \<Rightarrow> string" where
  "replace_pipe s = concat (map (\<lambda>c. if c = CHR ''|'' then [CHR 0x5C, CHR ''|''] else [c]) s)"

text \<open>The local function \<^verbatim>\<open>quote\<close> of \<^verbatim>\<open>put_table\<close>.\<close>

definition quote :: "cell \<Rightarrow> string" where
  "quote data = replace_pipe (str_cell data)"

text \<open>\<^verbatim>\<open>len(r)\<close> and the elements that iterating over \<open>r\<close> yields.\<close>

fun row_len :: "row \<Rightarrow> nat" where
  "row_len (RList cs) = length cs"
| "row_len (RDict kvs) = length kvs"
| "row_len (RStr s) = length s"

fun row_items :: "row \<Rightarrow> cell list" where
  "row_items (RList cs) = cs"
| "row_items (RDict kvs) = map (\<lambda>kv. CStr (fst kv)) kvs"
| "row_items (RStr s) = map (\<lambda>c. CStr [c]) s"

text \<open>
  \<^verbatim>\<open>[row.get(k, '') for k in header]\<close>: only a dictionary has the method \<^verbatim>\<open>get\<close>.
\<close>

fun project_row :: "string list \<Rightarrow> row \<Rightarrow> row result" where
  "project_row header (RDict kvs) =
     Returns (RList (map (\<lambda>k. case map_of kvs k of Some v \<Rightarrow> v | None \<Rightarrow> CStr []) header))"
| "project_row header (RList cs) = (if header = [] then Returns (RList []) else Raises AttributeError)"
| "project_row header (RStr s) = (if header = [] then Returns (RList []) else Raises AttributeError)"

fun project_rows :: "string list \<Rightarrow> row list \<Rightarrow> row list result" where
  "project_rows header [] = Returns []"
| "project_rows header (r # rs) =
     (case project_row header r of
        Raises e \<Rightarrow> Raises e
      | Returns r' \<Rightarrow>
          (case project_rows header rs of
             Raises e \<Rightarrow> Raises e
           | Returns rs' \<Rightarrow> Returns (r' # rs')))"

text \<open>One line of the table: \<^verbatim>\<open>"|%s|" % "|".join(cells)\<close>.\<close>

definition table_line :: "string list \<Rightarrow> string" where
  "table_line cells = ''|'' @ join ''|'' cells @ ''|''"

text \<open>
  \<^verbatim>\<open>tdata[0:0] = [' '] * len(tdata[0])\<close>, run when \<^verbatim>\<open>len(tdata) == 1\<close>: the slice
  assignment inserts the elements of the right-hand list, one-character strings, in
  front of the list.
\<close>

definition prepend_header :: "row list \<Rightarrow> row list" where
  "prepend_header tdata =
     (case tdata of
        [r] \<Rightarrow> replicate (row_len r) (RStr '' '') @ tdata
      | _ \<Rightarrow> tdata)"

text \<open>The lines \<^verbatim>\<open>res\<close> built from the list after that step; \<^verbatim>\<open>tdata[0]\<close> needs an element.\<close>

definition table_lines :: "row list \<Rightarrow> string list result" where
  "table_lines tdata =
     (case tdata of
        [] \<Rightarrow> Raises IndexError
      | r # rs \<Rightarrow>
          Returns (table_line (map quote (row_items r))
                   # table_line (replicate (row_len r) ''----'')
                   # map (\<lambda>tr. table_line (map quote (row_items tr))) rs))"

text \<open>
  The part of \<^verbatim>\<open>put_table\<close> before its call of \<^verbatim>\<open>put_markdown\<close>. With a truthy \<open>header\<close>
  the name \<open>tdata\<close> is rebound to a new list; otherwise it still names the caller's
  list, which the slice assignment then changes. The result is the caller's list as
  this part leaves it, and the Markdown source or the error raised.
\<close>

definition table_source :: "row list \<Rightarrow> string list option \<Rightarrow> row list \<times> string result" where
  "table_source tdata header =
     (let rebound = (case header of Some h \<Rightarrow> h \<noteq> [] | None \<Rightarrow> False) in
      case (if rebound
            then (case header of Some h \<Rightarrow> project_rows h tdata | None \<Rightarrow> Returns tdata)
            else Returns tdata) of
        Raises e \<Rightarrow> (tdata, Raises e)
      | Returns tdata0 \<Rightarrow>
          let tdata1 = prepend_header tdata0;
              callers = (if rebound then tdata else tdata1)
          in (case table_lines tdata1 of
                Raises e \<Rightarrow> (callers, Raises e)
              | Returns res \<Rightarrow> (callers, Returns (join ''\<newline>'' res))))"

text \<open>
  \<^verbatim>\<open>put_table(tdata, header=None, anchor=None, before=None, after=None)\<close>. The second
  component of the result is the caller's list after the call.
\<close>

definition put_table ::
  "row list \<Rightarrow> string list option \<Rightarrow> string option \<Rightarrow> string option \<Rightarrow> string option \<Rightarrow>
   world \<Rightarrow> unit result \<times> row list \<times> world" where
  "put_table tdata header anchor before after w =
     (case table_source tdata header of
        (callers, Raises e) \<Rightarrow> (Raises e, callers, w)
      | (callers, Returns md) \<Rightarrow>
          (case put_markdown md 0 False anchor before after w of
             (r, w') \<Rightarrow> (r, callers, w')))"

subsection \<open>Buttons\<close>

text \<open>
  The loop of \<^verbatim>\<open>_format_button\<close>: \<open>btns\<close> is the list built so far. A dictionary is a
  \<^verbatim>\<open>Mapping\<close>; only \<open>PList\<close> is an instance of \<^verbatim>\<open>list\<close>; everything else, a tuple
  included, takes the last branch. \<^verbatim>\<open>td_buttons\<close> normalises its buttons with the
  same function; the HTML fragment it then assembles is not part of the model.
\<close>

fun format_button_loop :: "pyval list \<Rightarrow> pyval list \<Rightarrow> pyval list result" where
  "format_button_loop btns [] = Returns btns"
| "format_button_loop btns (btn # buttons) =
     (case btn of
        PDict d \<Rightarrow>
          if dict_has ''value'' d \<and> dict_has ''label'' d
          then format_button_loop (btns @ [btn]) buttons
          else Raises (AssertionError ''actions item must have value and label key'')
      | PList xs \<Rightarrow>
          if length xs = 2
          then format_button_loop (btns @ [PDict (zip [''value'', ''label''] xs)]) buttons
          else Raises (AssertionError ''actions item format error'')
      | _ \<Rightarrow> format_button_loop (btns @ [PDict [(''value'', btn), (''label'', btn)]]) buttons)"

definition format_button :: "pyval list \<Rightarrow> pyval list result" where
  "format_button buttons = format_button_loop [] buttons"

definition put_buttons ::
  "pyval list \<Rightarrow> nat \<Rightarrow> bool \<Rightarrow> pyval \<Rightarrow> bool \<Rightarrow>
   string option \<Rightarrow> string option \<Rightarrow> string option \<Rightarrow> world \<Rightarrow> unit result \<times> world" where
  "put_buttons buttons onclick small save mutex_mode anchor before after w =
     (if truthy before \<and> truthy after then (Raises (AssertionError before_after_msg), w)
      else
        case format_button buttons of
          Raises e \<Rightarrow> (Raises e, w)
        | Returns btns \<Rightarrow>
            (case output_register_callback onclick save mutex_mode w of
               (callback_id, w') \<Rightarrow>
                 put_content ''buttons'' None anchor before after
                   [(''callback_id'', PStr callback_id), (''buttons'', PList btns),
                    (''small'', PBool small)] w'))"

subsection \<open>Files\<close>

text \<open>
  \<^verbatim>\<open>base64.b64encode\<close> of the standard library: three bytes become four characters
  of the standard alphabet; a last group of one or two bytes is padded with \<open>=\<close>.
\<close>

definition b64_alphabet :: string where
  "b64_alphabet = ''ABCDEFGHIJKLMNOPQRSTUVWXYZabcdefghijklmnopqrstuvwxyz0123456789+/''"

definition b64_char :: "nat \<Rightarrow> char" where
  "b64_char n = b64_alphabet ! n"

fun b64encode :: "8 word list \<Rightarrow> string" where
  "b64encode [] = []"
| "b64encode [a] =
     [b64_char (unat a div 4), b64_char (unat a mod 4 * 16), CHR ''='', CHR ''='']"
| "b64encode [a, b] =
     [b64_char (unat a div 4), b64_char (unat a mod 4 * 16 + unat b div 16),
      b64_char (unat b mod 16 * 4), CHR ''='']"
| "b64encode (a # b # c # rest) =
     [b64_char (unat a div 4), b64_char (unat a mod 4 * 16 + unat b div 16),
      b64_char (unat b mod 16 * 4 + unat c div 64), b64_char (unat c mod 64)]
     @ b64encode rest"

text \<open>The position of a character in a list, if it occurs.\<close>

fun index_of :: "'a \<Rightarrow> 'a list \<Rightarrow> nat option" where
  "index_of x [] = None"
| "index_of x (y # ys) = (if x = y then Some 0 else map_option Suc (index_of x ys))"

definition b64_value :: "char \<Rightarrow> nat option" where
  "b64_value c = index_of c b64_alphabet"

text \<open>
  A strict decoder for the same alphabet: the input is read four characters at a time,
  padding is accepted in the last group only, anything else is rejected.
\<close>

fun b64decode :: "string \<Rightarrow> 8 word list option" where
  "b64decode [] = Some []"
| "b64decode (c1 # c2 # c3 # c4 # rest) =
     (case (b64_value c1, b64_value c2) of
        (Some s1, Some s2) \<Rightarrow>
          (if rest = [] \<and> c3 = CHR ''='' \<and> c4 = CHR ''='' then
             Some [of_nat (s1 * 4 + s2 div 16)]
           else
             (case b64_value c3 of
                Some s3 \<Rightarrow>
                  (if rest = [] \<and> c4 = CHR ''='' then
                     Some [of_nat (s1 * 4 + s2 div 16), of_nat (s2 mod 16 * 16 + s3 div 4)]
                   else
                     (case (b64_value c4, b64decode rest) of
                        (Some s4, Some bs) \<Rightarrow>
                          Some (of_nat (s1 * 4 + s2 div 16)
                                # of_nat (s2 mod 16 * 16 + s3 div 4)
                                # of_nat (s3 mod 4 * 64 + s4) # bs)
                      | _ \<Rightarrow> None))
              | None \<Rightarrow> None))
      | _ \<Rightarrow> None)"
| "b64decode _ = None"

text \<open>
  \<^verbatim>\<open>put_file(name, content, anchor=None, before=None, after=None)\<close>;
  \<^verbatim>\<open>.decode('ascii')\<close> keeps every character of the encoder's output.
\<close>

definition put_file ::
  "string \<Rightarrow> 8 word list \<Rightarrow> string option \<Rightarrow> string option \<Rightarrow> string option \<Rightarrow> world \<Rightarrow>
   unit result \<times> world" where
  "put_file name content anchor before after w =
     (if truthy before \<and> truthy after then (Raises (AssertionError before_after_msg), w)
      else
        let content' = b64encode content
        in put_content ''file'' None anchor before after
             [(''name'', PStr name), (''content'', PStr content')] w)"

section \<open>Notions used to state the properties\<close>

text \<open>A state in which session 0 is active and nothing has been sent or registered.\<close>

definition idle_world :: world where
  "idle_world = \<lparr>active_ws = 0, outbox = (\<lambda>_. []), registered = [], callback_ids = (\<lambda>_. [])\<rparr>"

text \<open>The envelope around an instruction: a command and a spec.\<close>

definition envelope :: "string \<Rightarrow> pydict \<Rightarrow> pyval" where
  "envelope cmd spec = PDict [(''command'', PStr cmd), (''spec'', PDict spec)]"



text \<open>The instruction inside the newest envelope of a session's queue.\<close>

definition last_spec :: "session \<Rightarrow> world \<Rightarrow> pydict" where
  "last_spec s w =
     (case last (outbox w s) of
        PDict d \<Rightarrow> (case map_of d ''spec'' of Some (PDict spec) \<Rightarrow> spec | _ \<Rightarrow> [])
      | _ \<Rightarrow> [])"

text \<open>
  The tag of a positioning argument as the specification words it: the literal prefix
  followed by the name; no field for a missing or empty name.
\<close>

definition spec_anchor_tag :: "string option \<Rightarrow> pyval option" where
  "spec_anchor_tag x =
     (case x of
        None \<Rightarrow> None
      | Some n \<Rightarrow> if n = [] then None else Some (PStr (''pywebio-anchor-'' @ n)))"


text \<open>
  The three positioning fields of an instruction are the tags of the three arguments.
\<close>

definition positioned :: "string option \<Rightarrow> string option \<Rightarrow> string option \<Rightarrow> pydict \<Rightarrow> bool" where
  "positioned anchor before after spec =
     (map_of spec ''anchor'' = spec_anchor_tag anchor
      \<and> map_of spec ''before'' = spec_anchor_tag before
      \<and> map_of spec ''after'' = spec_anchor_tag after)"


section \<open>Base64: decoding inverts encoding\<close>

lemma index_of_nth: "distinct xs \<Longrightarrow> n < length xs \<Longrightarrow> index_of (xs ! n) xs = Some n"
proof (induction xs arbitrary: n)
  case Nil
  then show ?case by simp
next
  case (Cons x xs)
  show ?case
  proof (cases n)
    case 0
    then show ?thesis by simp
  next
    case (Suc m)
    with Cons.prems have "m < length xs" "distinct xs" "xs ! m \<noteq> x"
      by auto
    with Cons.IH[of m] Suc show ?thesis by simp
  qed
qed

lemma length_b64_alphabet: "length b64_alphabet = 64"
  by (simp add: b64_alphabet_def)

lemma distinct_b64_alphabet: "distinct b64_alphabet"
  by (simp add: b64_alphabet_def)

lemma b64_value_char: "n < 64 \<Longrightarrow> b64_value (b64_char n) = Some n"
  unfolding b64_value_def b64_char_def
  by (rule index_of_nth) (simp_all add: distinct_b64_alphabet length_b64_alphabet)

lemma pad_not_in_alphabet: "CHR ''='' \<notin> set b64_alphabet"
  by (simp add: b64_alphabet_def)

lemma b64_char_not_pad: "n < 64 \<Longrightarrow> b64_char n \<noteq> CHR ''=''"
proof -
  assume "n < 64"
  then have "b64_char n \<in> set b64_alphabet"
    unfolding b64_char_def by (simp add: length_b64_alphabet)
  with pad_not_in_alphabet show ?thesis by metis
qed

lemma unat_byte: "unat (a :: 8 word) < 256"
  using unsigned_less[of a, where ?'a = nat] by simp

lemma div16: "b < 256 \<Longrightarrow> b div 16 < (16::nat)"
  by (simp add: less_mult_imp_div_less)
lemma div64: "c < 256 \<Longrightarrow> c div 64 < (4::nat)"
  by (simp add: less_mult_imp_div_less)
lemma byte1: "b < 256 \<Longrightarrow> (a div 4) * 4 + (a mod 4 * 16 + b div 16) div 16 = (a::nat)"
proof -
  assume "b < 256"
  then have "b div 16 < 16" by (rule div16)
  then have "(a mod 4 * 16 + b div 16) div 16 = a mod 4" by simp
  then show ?thesis by simp
qed
lemma byte2: "b < 256 \<Longrightarrow> c < 256 \<Longrightarrow> (a mod 4 * 16 + b div 16) mod 16 * 16 + (b mod 16 * 4 + c div 64) div 4 = (b::nat)"
proof -
  assume "b < 256" "c < 256"
  then have b: "b div 16 < 16" and c: "c div 64 < 4" by (simp_all add: div16 div64)
  from b have "(a mod 4 * 16 + b div 16) mod 16 = b div 16" by simp
  moreover from c have "(b mod 16 * 4 + c div 64) div 4 = b mod 16" by simp
  ultimately show ?thesis by simp
qed
lemma byte3: "c < 256 \<Longrightarrow> (b mod 16 * 4 + c div 64) mod 4 * 64 + c mod 64 = (c::nat)"
proof -
  assume "c < 256"
  then have c: "c div 64 < 4" by (rule div64)
  then have "(b mod 16 * 4 + c div 64) mod 4 = c div 64" by simp
  then show ?thesis by simp
qed

lemma sextets:
  fixes a b c :: nat
  assumes "a < 256" "b < 256" "c < 256"
  shows "a div 4 < 64" "a mod 4 * 16 < 64" "a mod 4 * 16 + b div 16 < 64"
        "b mod 16 * 4 < 64" "b mod 16 * 4 + c div 64 < 64" "c mod 64 < 64"
proof -
  have "a mod 4 < 4" "b mod 16 < 16" by simp_all
  moreover have "b div 16 < 16" "c div 64 < 4" "a div 4 < 64"
    using assms by (simp_all add: less_mult_imp_div_less)
  ultimately show "a div 4 < 64" "a mod 4 * 16 < 64" "a mod 4 * 16 + b div 16 < 64"
        "b mod 16 * 4 < 64" "b mod 16 * 4 + c div 64 < 64" "c mod 64 < 64"
    by simp_all
qed

lemma rt1: "b64decode (b64encode [a]) = Some [a]"
  using sextets(1,2)[OF unat_byte[of a] unat_byte[of a] unat_byte[of a]]
  by (simp add: b64_value_char)

lemma rt2: "b64decode (b64encode [a, b]) = Some [a, b]"
  using sextets(1,3,4)[OF unat_byte[of a] unat_byte[of b] unat_byte[of b]]
    byte1[OF unat_byte[of b], of "unat a"] byte2[OF unat_byte[of b], of 0 "unat a"]
  by (simp add: b64_value_char b64_char_not_pad)

lemma rt3: "b64decode rest' = Some rest \<Longrightarrow> 
  b64decode ([b64_char (unat a div 4), b64_char (unat a mod 4 * 16 + unat b div 16),
      b64_char (unat b mod 16 * 4 + unat c div 64), b64_char (unat c mod 64)] @ rest') = Some (a # b # c # rest)"
  using sextets(1,3,5,6)[OF unat_byte[of a] unat_byte[of b] unat_byte[of c]]
    byte1[OF unat_byte[of b], of "unat a"] byte2[OF unat_byte[of b] unat_byte[of c], of "unat a"]
    byte3[OF unat_byte[of c], of "unat b"]
  by (simp add: b64_value_char b64_char_not_pad)

lemma b64_roundtrip: "b64decode (b64encode bs) = Some bs"
proof (induction bs rule: b64encode.induct)
  case 1
  show ?case by simp
next
  case (2 a)
  show ?case by (rule rt1)
next
  case (3 a b)
  show ?case by (rule rt2)
next
  case (4 a b c rest)
  then show ?case using rt3 by simp
qed

section \<open>Facts about the assembly step\<close>

lemma map_of_dict_set: "map_of (dict_set k v d) = (map_of d)(k \<mapsto> v)"
  by (induction d) auto

lemma put_content_raises:
  "truthy before \<Longrightarrow> truthy after \<Longrightarrow>
   put_content ty ws anchor before after other w = (Raises (AssertionError before_after_msg), w)"
  by (simp add: put_content_def)

lemma put_content_returns:
  "\<not> (truthy before \<and> truthy after) \<Longrightarrow>
   put_content ty ws anchor before after other w =
     (Returns (),
      add_server_msg (case ws of Some s \<Rightarrow> s | None \<Rightarrow> active_ws w)
        (envelope ''output'' (content_spec ty anchor before after other)) w)"
  by (simp add: put_content_def envelope_def)

lemma content_spec_other:
  "k \<noteq> ''anchor'' \<Longrightarrow> k \<noteq> ''before'' \<Longrightarrow> k \<noteq> ''after'' \<Longrightarrow>
   map_of (content_spec ty anchor before after other) k =
   map_of (dict_update [(''type'', PStr ty)] other) k"
  by (simp add: content_spec_def Let_def map_of_dict_set split: option.splits)

lemma content_spec_anchor:
  "map_of (content_spec ty anchor before after other) ''anchor'' =
   (case spec_anchor_tag anchor of
      Some v \<Rightarrow> Some v
    | None \<Rightarrow> map_of (dict_update [(''type'', PStr ty)] other) ''anchor'')"
  by (simp add: content_spec_def Let_def map_of_dict_set spec_anchor_tag_def AnchorTPL_def
      split: option.splits)

lemma content_spec_before:
  "map_of (content_spec ty anchor before after other) ''before'' =
   (case spec_anchor_tag before of
      Some v \<Rightarrow> Some v
    | None \<Rightarrow> map_of (dict_update [(''type'', PStr ty)] other) ''before'')"
  by (simp add: content_spec_def Let_def map_of_dict_set spec_anchor_tag_def AnchorTPL_def
      split: option.splits)

lemma content_spec_after:
  "\<not> truthy before \<Longrightarrow>
   map_of (content_spec ty anchor before after other) ''after'' =
   (case spec_anchor_tag after of
      Some v \<Rightarrow> Some v
    | None \<Rightarrow> map_of (dict_update [(''type'', PStr ty)] other) ''after'')"
  by (simp add: content_spec_def Let_def map_of_dict_set spec_anchor_tag_def AnchorTPL_def
      split: option.splits)

lemma content_spec_absent: 
  "content_spec ty None None None other = dict_update [(''type'', PStr ty)] other"
  by (simp add: content_spec_def)

lemma markdown_source_plain: "markdown_source src 0 False = src"
  by (simp add: markdown_source_def)

subsection \<open>The encoder's output is ASCII\<close>

lemma b64_ascii_char: "n < 64 \<Longrightarrow> of_char (b64_char n) < (128::nat)"
proof -
  assume "n < 64"
  then have "b64_char n \<in> set b64_alphabet"
    unfolding b64_char_def by (simp add: length_b64_alphabet)
  moreover have "\<forall>c \<in> set b64_alphabet. of_char c < (128::nat)"
    by (simp add: b64_alphabet_def)
  ultimately show ?thesis by blast
qed

lemma b64encode_ascii: "list_all (\<lambda>c. of_char c < (128::nat)) (b64encode bs)"
proof (induction bs rule: b64encode.induct)
  case 1
  show ?case by simp
next
  case (2 a)
  show ?case
    using sextets(1,2)[OF unat_byte[of a] unat_byte[of a] unat_byte[of a]]
    by (simp add: b64_ascii_char)
next
  case (3 a b)
  show ?case
    using sextets(1,3,4)[OF unat_byte[of a] unat_byte[of b] unat_byte[of b]]
    by (simp add: b64_ascii_char)
next
  case (4 a b c rest)
  then show ?case
    using sextets(1,3,5,6)[OF unat_byte[of a] unat_byte[of b] unat_byte[of c]]
    by (simp add: b64_ascii_char)
qed

subsection \<open>Empty strings and missing arguments\<close>








subsection \<open>Outcome and delivery\<close>

lemma put_content_fst:
  "fst (put_content ty ws anchor before after other w) =
   (if truthy before \<and> truthy after then Raises (AssertionError before_after_msg) else Returns ())"
  by (simp add: put_content_def Let_def)







lemma put_markdown_fst:
  "fst (put_markdown md si ls anchor before after w) =
   (if truthy before \<and> truthy after then Raises (AssertionError before_after_msg) else Returns ())"
  by (simp add: put_markdown_def put_content_fst)

lemma put_table_fst:
  "fst (put_table tdata header anchor before after w) =
   (case snd (table_source tdata header) of
      Raises e \<Rightarrow> Raises e
    | Returns md \<Rightarrow>
        if truthy before \<and> truthy after then Raises (AssertionError before_after_msg)
        else Returns ())"
proof (cases "table_source tdata header")
  case (Pair callers src)
  then show ?thesis
    by (cases src) (simp_all add: put_table_def case_prod_beta put_markdown_fst)
qed





lemma last_spec_add_server_msg:
  "last_spec s (add_server_msg s (envelope cmd spec) w) = spec"
  by (simp add: last_spec_def add_server_msg_def envelope_def)

subsection \<open>Positioning fields\<close>

lemma spec_anchor_tag_falsy: "\<not> truthy x \<Longrightarrow> spec_anchor_tag x = None"
  by (cases x) (simp_all add: spec_anchor_tag_def)

lemma content_spec_after_set:
  "truthy before \<Longrightarrow>
   map_of (content_spec ty anchor before after other) ''after'' =
   map_of (dict_update [(''type'', PStr ty)] other) ''after''"
  by (cases before; cases anchor)
     (simp_all add: content_spec_def Let_def map_of_dict_set)

lemma put_content_positioned:
  assumes "\<not> (truthy before \<and> truthy after)"
    and "map_of (dict_update [(''type'', PStr ty)] other) ''anchor'' = None"
    and "map_of (dict_update [(''type'', PStr ty)] other) ''before'' = None"
    and "map_of (dict_update [(''type'', PStr ty)] other) ''after'' = None"
  shows "positioned anchor before after
           (last_spec (active_ws w) (snd (put_content ty None anchor before after other w)))"
proof -
  have a: "map_of (content_spec ty anchor before after other) ''anchor'' = spec_anchor_tag anchor"
    using assms(2) by (simp add: content_spec_anchor split: option.splits)
  have b: "map_of (content_spec ty anchor before after other) ''before'' = spec_anchor_tag before"
    using assms(3) by (simp add: content_spec_before split: option.splits)
  have c: "map_of (content_spec ty anchor before after other) ''after'' = spec_anchor_tag after"
  proof (cases "truthy before")
    case True
    with assms(1) have "\<not> truthy after" by simp
    with True assms(4) show ?thesis
      by (simp add: content_spec_after_set spec_anchor_tag_falsy)
  next
    case False
    with assms(4) show ?thesis by (simp add: content_spec_after split: option.splits)
  qed
  show ?thesis
    using assms(1) a b c
    by (simp add: put_content_returns last_spec_add_server_msg positioned_def)
qed

lemma put_markdown_positioned:
  "\<not> (truthy before \<and> truthy after) \<Longrightarrow>
   positioned anchor before after
     (last_spec (active_ws w) (snd (put_markdown md si ls anchor before after w)))"
  unfolding put_markdown_def
  by (rule put_content_positioned) (simp_all add: dict_update_def)

lemma put_table_positioned:
  assumes "fst (put_table tdata header anchor before after w) = Returns ()"
  shows "positioned anchor before after
     (last_spec (active_ws w) (snd (snd (put_table tdata header anchor before after w))))"
proof (cases "table_source tdata header")
  case (Pair callers src)
  show ?thesis
  proof (cases src)
    case (Raises e)
    with Pair assms show ?thesis by (simp add: put_table_def)
  next
    case (Returns md)
    with Pair assms have "\<not> (truthy before \<and> truthy after)"
      by (auto simp: put_table_fst)
    then show ?thesis
      using Pair Returns put_markdown_positioned[of before after anchor w md 0 False]
      by (simp add: put_table_def case_prod_beta)
  qed
qed

lemma put_buttons_positioned:
  assumes "fst (put_buttons buttons onclick small save mutex_mode anchor before after w) = Returns ()"
  shows "positioned anchor before after
     (last_spec (active_ws w)
        (snd (put_buttons buttons onclick small save mutex_mode anchor before after w)))"
proof -
  from assms have nb: "\<not> (truthy before \<and> truthy after)"
    by (auto simp: put_buttons_def)
  from assms nb obtain btns where btns: "format_button buttons = Returns btns"
    by (cases "format_button buttons") (auto simp: put_buttons_def)
  define w' where "w' = snd (output_register_callback onclick save mutex_mode w)"
  have aw: "active_ws w' = active_ws w"
    by (simp add: w'_def output_register_callback_def)
  have "positioned anchor before after
          (last_spec (active_ws w')
             (snd (put_content ''buttons'' None anchor before after
                [(''callback_id'', PStr (fst (output_register_callback onclick save mutex_mode w))),
                 (''buttons'', PList btns), (''small'', PBool small)] w')))"
    using nb by (intro put_content_positioned) (simp_all add: dict_update_def)
  then show ?thesis
    using nb btns aw by (auto simp: put_buttons_def case_prod_beta w'_def)
qed

subsection \<open>Line stripping\<close>

lemma take_eq_replicate:
  "(take n xs = replicate n x) = (n \<le> length xs \<and> (\<forall>c \<in> set (take n xs). c = x))"
proof
  assume h: "take n xs = replicate n x"
  then have "length (take n xs) = n" by simp
  then have "n \<le> length xs" by simp
  moreover from h have "\<forall>c \<in> set (take n xs). c = x" by simp
  ultimately show "n \<le> length xs \<and> (\<forall>c \<in> set (take n xs). c = x)" by simp
next
  assume "n \<le> length xs \<and> (\<forall>c \<in> set (take n xs). c = x)"
  then have "length (take n xs) = n" "\<forall>c \<in> set (take n xs). c = x" by simp_all
  then show "take n xs = replicate n x"
    by (metis replicate_eqI)
qed

lemma strip_indent_line_nat:
  "strip_indent_line (int n) line =
   (if n \<le> length line \<and> (\<forall>c \<in> set (take n line). c = CHR '' '') then drop n line else line)"
  by (simp add: strip_indent_line_def slice_to_def slice_from_def take_eq_replicate)

lemma lstrip_changes: "line \<noteq> [] \<Longrightarrow> isspace (hd line) \<Longrightarrow> lstrip line \<noteq> line"
proof -
  assume "line \<noteq> []" "isspace (hd line)"
  then have "length (dropWhile isspace line) < length line"
    by (cases line) (simp_all add: le_imp_less_Suc length_dropWhile_le)
  then show ?thesis by (auto simp: lstrip_def)
qed

lemma lstrip_no_leading_space: "lstrip line = [] \<or> \<not> isspace (hd (lstrip line))"
  unfolding lstrip_def by (metis hd_dropWhile)

lemma example_strip_indent:
  "markdown_source ''    # H1\<newline>    body\<newline>'' 4 False = ''# H1\<newline>body''"
  by (simp add: markdown_source_def splitlines_def strip_indent_line_def slice_to_def
      slice_from_def linebreak_def eval_nat_numeral)

lemma example_lstrip:
  "markdown_source ''    # H1\<newline>    body\<newline>'' 0 True = ''# H1\<newline>body''"
  by (simp add: markdown_source_def splitlines_def lstrip_def isspace_def linebreak_def)

subsection \<open>The caller's table\<close>

lemma table_source_rebound:
  "h \<noteq> [] \<Longrightarrow> fst (table_source tdata (Some h)) = tdata"
  by (simp add: table_source_def Let_def split: result.splits)

lemma table_source_alias:
  "header = None \<or> header = Some [] \<Longrightarrow>
   fst (table_source tdata header) = prepend_header tdata"
  by (auto simp: table_source_def Let_def split: result.splits)

lemma put_table_callers:
  "fst (snd (put_table tdata header anchor before after w)) = fst (table_source tdata header)"
  by (cases "table_source tdata header"; cases "snd (table_source tdata header)")
     (simp_all add: put_table_def case_prod_beta)

subsection \<open>The result of each content operation\<close>


























section \<open>Properties of the module\<close>

text \<open>
  C7: \<^verbatim>\<open>put_code(content, language)\<close> builds exactly three backticks, the language tag, a
  newline, the content, a newline and three backticks, and hands that source unchanged
  to \<^verbatim>\<open>put_markdown\<close>, which sends it as the content of a \<open>markdown\<close> instruction. For
  \<open>x=1\<close> and \<open>python\<close> the source is three backticks, \<open>python\<close>, newline, \<open>x=1\<close>,
  newline, three backticks. Without a language the tag is the empty string.
\<close>

theorem put_code_fence:
  "put_code content langage anchor before after w =
     put_markdown (''```'' @ langage @ ''\<newline>'' @ content @ ''\<newline>```'') 0 False anchor before after w
   \<and> put_code content langage anchor before after w =
     put_content ''markdown'' None anchor before after
       [(''content'', PStr (''```'' @ langage @ ''\<newline>'' @ content @ ''\<newline>```''))] w
   \<and> code_fence ''python'' ''x=1'' = ''```python\<newline>x=1\<newline>```''
   \<and> put_code_default content w =
     put_content ''markdown'' None None None None
       [(''content'', PStr (''```\<newline>'' @ content @ ''\<newline>```''))] w"
  by (simp add: put_code_def put_code_default_def code_fence_def put_markdown_def markdown_source_plain)

text \<open>
  C8: for every byte string \<open>c\<close> and name \<open>n\<close>, \<^verbatim>\<open>put_file(n, c)\<close> dispatches one \<open>file\<close>
  instruction whose \<open>content\<close> is the base64 encoding of \<open>c\<close>, a string of ASCII
  characters that decodes back to \<open>c\<close>, and whose \<open>name\<close> is \<open>n\<close> itself. With
  positioning arguments the same two fields are sent unless both \<open>before\<close> and \<open>after\<close>
  are truthy.
\<close>

theorem put_file_base64:
  "b64decode (b64encode c) = Some c
   \<and> list_all (\<lambda>ch. of_char ch < (128::nat)) (b64encode c)
   \<and> put_file n c None None None w =
       (Returns (),
        add_server_msg (active_ws w)
          (envelope ''output''
             [(''type'', PStr ''file''), (''name'', PStr n), (''content'', PStr (b64encode c))]) w)
   \<and> put_file n c anchor before after w =
       (if truthy before \<and> truthy after then (Raises (AssertionError before_after_msg), w)
        else (Returns (),
              add_server_msg (active_ws w)
                (envelope ''output''
                   (content_spec ''file'' anchor before after
                      [(''name'', PStr n), (''content'', PStr (b64encode c))])) w))
   \<and> map_of (content_spec ''file'' anchor before after
                [(''name'', PStr n), (''content'', PStr (b64encode c))]) ''name'' = Some (PStr n)
   \<and> map_of (content_spec ''file'' anchor before after
                [(''name'', PStr n), (''content'', PStr (b64encode c))]) ''content''
       = Some (PStr (b64encode c))"
proof (intro conjI)
  show "b64decode (b64encode c) = Some c"
    by (rule b64_roundtrip)
  show "list_all (\<lambda>ch. of_char ch < (128::nat)) (b64encode c)"
    by (rule b64encode_ascii)
  show "put_file n c None None None w =
       (Returns (),
        add_server_msg (active_ws w)
          (envelope ''output''
             [(''type'', PStr ''file''), (''name'', PStr n), (''content'', PStr (b64encode c))]) w)"
    by (simp add: put_file_def put_content_returns content_spec_absent dict_update_def)
  show "put_file n c anchor before after w =
       (if truthy before \<and> truthy after then (Raises (AssertionError before_after_msg), w)
        else (Returns (),
              add_server_msg (active_ws w)
                (envelope ''output''
                   (content_spec ''file'' anchor before after
                      [(''name'', PStr n), (''content'', PStr (b64encode c))])) w))"
    by (simp add: put_file_def put_content_returns)
  show "map_of (content_spec ''file'' anchor before after
                [(''name'', PStr n), (''content'', PStr (b64encode c))]) ''name'' = Some (PStr n)"
    by (simp add: content_spec_other dict_update_def)
  show "map_of (content_spec ''file'' anchor before after
                [(''name'', PStr n), (''content'', PStr (b64encode c))]) ''content''
       = Some (PStr (b64encode c))"
    by (simp add: content_spec_other dict_update_def)
qed



text \<open>
  C5: the five anchor operations transmit the name \<open>n\<close> as exactly \<open>pywebio-anchor-\<close>
  followed by \<open>n\<close>, for every \<open>n\<close>. A content operation that returns has sent an
  instruction whose \<open>anchor\<close>, \<open>before\<close> and \<open>after\<close> fields are exactly the tags of
  the corresponding arguments: \<open>pywebio-anchor-\<close> followed by the name, unchanged, for a
  non-empty name, and no field for a missing or empty one.
\<close>

theorem anchor_tag_format:
  "set_anchor n w =
     add_server_msg (active_ws w)
       (envelope ''output_ctl'' [(''set_anchor'', PStr (''pywebio-anchor-'' @ n))]) w
   \<and> clear_before n w =
     add_server_msg (active_ws w)
       (envelope ''output_ctl'' [(''clear_before'', PStr (''pywebio-anchor-'' @ n))]) w
   \<and> clear_after n w =
     add_server_msg (active_ws w)
       (envelope ''output_ctl'' [(''clear_after'', PStr (''pywebio-anchor-'' @ n))]) w
   \<and> clear_range n m w =
     add_server_msg (active_ws w)
       (envelope ''output_ctl''
          [(''clear_range'', PList [PStr (''pywebio-anchor-'' @ n), PStr (''pywebio-anchor-'' @ m)])]) w
   \<and> scroll_to n w =
     add_server_msg (active_ws w)
       (envelope ''output_ctl'' [(''scroll_to'', PStr (''pywebio-anchor-'' @ n))]) w
   \<and> (n \<noteq> [] \<longrightarrow> spec_anchor_tag (Some n) = Some (PStr (''pywebio-anchor-'' @ n)))
   \<and> (fst (put_text str inline anchor before after w) = Returns () \<longrightarrow>
        positioned anchor before after
          (last_spec (active_ws w) (snd (put_text str inline anchor before after w))))
   \<and> (fst (put_html html anchor before after w) = Returns () \<longrightarrow>
        positioned anchor before after
          (last_spec (active_ws w) (snd (put_html html anchor before after w))))
   \<and> (fst (put_markdown md strip_indent lstrip_flag anchor before after w) = Returns () \<longrightarrow>
        positioned anchor before after
          (last_spec (active_ws w)
             (snd (put_markdown md strip_indent lstrip_flag anchor before after w))))
   \<and> (fst (put_code content langage anchor before after w) = Returns () \<longrightarrow>
        positioned anchor before after
          (last_spec (active_ws w) (snd (put_code content langage anchor before after w))))
   \<and> (fst (put_table tdata header anchor before after w) = Returns () \<longrightarrow>
        positioned anchor before after
          (last_spec (active_ws w) (snd (snd (put_table tdata header anchor before after w)))))
   \<and> (fst (put_buttons buttons onclick small save mutex_mode anchor before after w) = Returns () \<longrightarrow>
        positioned anchor before after
          (last_spec (active_ws w)
             (snd (put_buttons buttons onclick small save mutex_mode anchor before after w))))
   \<and> (fst (put_file name c anchor before after w) = Returns () \<longrightarrow>
        positioned anchor before after
          (last_spec (active_ws w) (snd (put_file name c anchor before after w))))"
proof (intro conjI impI)
  assume "fst (put_text str inline anchor before after w) = Returns ()"
  then have "\<not> (truthy before \<and> truthy after)"
    by (auto simp: put_text_def put_content_fst)
  then show "positioned anchor before after
          (last_spec (active_ws w) (snd (put_text str inline anchor before after w)))"
    unfolding put_text_def by (intro put_content_positioned) (simp_all add: dict_update_def)
next
  assume "fst (put_html html anchor before after w) = Returns ()"
  then have "\<not> (truthy before \<and> truthy after)"
    by (auto simp: put_html_def put_content_fst)
  then show "positioned anchor before after
          (last_spec (active_ws w) (snd (put_html html anchor before after w)))"
    unfolding put_html_def by (intro put_content_positioned) (simp_all add: dict_update_def)
next
  assume "fst (put_markdown md strip_indent lstrip_flag anchor before after w) = Returns ()"
  then have "\<not> (truthy before \<and> truthy after)"
    by (auto simp: put_markdown_fst)
  then show "positioned anchor before after
          (last_spec (active_ws w)
             (snd (put_markdown md strip_indent lstrip_flag anchor before after w)))"
    by (rule put_markdown_positioned)
next
  assume "fst (put_code content langage anchor before after w) = Returns ()"
  then have "\<not> (truthy before \<and> truthy after)"
    by (auto simp: put_code_def put_markdown_fst)
  then show "positioned anchor before after
          (last_spec (active_ws w) (snd (put_code content langage anchor before after w)))"
    by (simp add: put_code_def put_markdown_positioned)
next
  assume "fst (put_table tdata header anchor before after w) = Returns ()"
  then show "positioned anchor before after
          (last_spec (active_ws w) (snd (snd (put_table tdata header anchor before after w))))"
    by (rule put_table_positioned)
next
  assume "fst (put_buttons buttons onclick small save mutex_mode anchor before after w) = Returns ()"
  then show "positioned anchor before after
          (last_spec (active_ws w)
             (snd (put_buttons buttons onclick small save mutex_mode anchor before after w)))"
    by (rule put_buttons_positioned)
next
  assume r: "fst (put_file name c anchor before after w) = Returns ()"
  then have nb: "\<not> (truthy before \<and> truthy after)"
    by (auto simp: put_file_def)
  have "positioned anchor before after
          (last_spec (active_ws w)
             (snd (put_content ''file'' None anchor before after
                     [(''name'', PStr name), (''content'', PStr (b64encode c))] w)))"
    using nb by (intro put_content_positioned) (simp_all add: dict_update_def)
  with nb show "positioned anchor before after
          (last_spec (active_ws w) (snd (put_file name c anchor before after w)))"
    by (auto simp: put_file_def)
qed (simp_all add: set_anchor_def clear_before_def clear_after_def clear_range_def scroll_to_def
       AnchorTPL_def send_msg_def envelope_def spec_anchor_tag_def)

text \<open>An instance of C5 with every operation returning.\<close>

theorem anchor_tag_format_witness:
  "spec_anchor_tag (Some ''top'') = Some (PStr ''pywebio-anchor-top'')
   \<and> positioned (Some ''top'') (Some ''a'') None
        (last_spec (active_ws idle_world)
           (snd (put_text ''hi'' False (Some ''top'') (Some ''a'') None idle_world)))
   \<and> positioned (Some ''top'') (Some ''a'') None
        (last_spec (active_ws idle_world)
           (snd (put_html ''hi'' (Some ''top'') (Some ''a'') None idle_world)))
   \<and> positioned (Some ''top'') (Some ''a'') None
        (last_spec (active_ws idle_world)
           (snd (put_markdown ''hi'' 0 False (Some ''top'') (Some ''a'') None idle_world)))
   \<and> positioned (Some ''top'') (Some ''a'') None
        (last_spec (active_ws idle_world)
           (snd (put_code ''hi'' ''py'' (Some ''top'') (Some ''a'') None idle_world)))
   \<and> positioned (Some ''top'') (Some ''a'') None
        (last_spec (active_ws idle_world)
           (snd (snd (put_table [RList [CStr ''x'']] None (Some ''top'') (Some ''a'') None
                        idle_world))))
   \<and> positioned (Some ''top'') (Some ''a'') None
        (last_spec (active_ws idle_world)
           (snd (put_buttons [PStr ''ok''] 0 False PNone False (Some ''top'') (Some ''a'') None
                   idle_world)))
   \<and> positioned (Some ''top'') (Some ''a'') None
        (last_spec (active_ws idle_world)
           (snd (put_file ''f'' [77] (Some ''top'') (Some ''a'') None idle_world)))"
proof -
  note t = anchor_tag_format[where n = "''top''" and w = idle_world and anchor = "Some ''top''"
      and before = "Some ''a''" and after = None and str = "''hi''" and inline = False
      and html = "''hi''" and md = "''hi''" and strip_indent = 0 and lstrip_flag = False
      and content = "''hi''" and langage = "''py''" and tdata = "[RList [CStr ''x'']]"
      and header = None and buttons = "[PStr ''ok'']" and onclick = 0 and small = False
      and save = PNone and mutex_mode = False and name = "''f''" and c = "[77]"]
  have r1: "fst (put_text ''hi'' False (Some ''top'') (Some ''a'') None idle_world) = Returns ()"
    by (simp add: put_text_def put_content_fst)
  have r2: "fst (put_html ''hi'' (Some ''top'') (Some ''a'') None idle_world) = Returns ()"
    by (simp add: put_html_def put_content_fst)
  have r3: "fst (put_markdown ''hi'' 0 False (Some ''top'') (Some ''a'') None idle_world) = Returns ()"
    by (simp add: put_markdown_fst)
  have r4: "fst (put_code ''hi'' ''py'' (Some ''top'') (Some ''a'') None idle_world) = Returns ()"
    by (simp add: put_code_def put_markdown_fst)
  have r5: "fst (put_table [RList [CStr ''x'']] None (Some ''top'') (Some ''a'') None idle_world)
              = Returns ()"
    by (simp add: put_table_fst table_source_def prepend_header_def table_lines_def)
  have r6: "fst (put_buttons [PStr ''ok''] 0 False PNone False (Some ''top'') (Some ''a'') None
                   idle_world) = Returns ()"
    by (simp add: put_buttons_def format_button_def put_content_fst case_prod_beta)
  have r7: "fst (put_file ''f'' [77] (Some ''top'') (Some ''a'') None idle_world) = Returns ()"
    by (simp add: put_file_def put_content_fst)
  show ?thesis
    using t r1 r2 r3 r4 r5 r6 r7 by simp
qed

text \<open>
  The empty name given as the \<open>anchor\<close> of \<^verbatim>\<open>put_text\<close> is not transmitted as
  \<open>pywebio-anchor-\<close>: the instruction has no \<open>anchor\<close> field.
\<close>

theorem empty_anchor_counterexample:
  "put_text ''hi'' False (Some []) None None idle_world =
     (Returns (),
      add_server_msg 0
        (envelope ''output''
           [(''type'', PStr ''text''), (''content'', PStr ''hi''), (''inline'', PBool False)])
        idle_world)
   \<and> map_of (last_spec 0 (snd (put_text ''hi'' False (Some []) None None idle_world))) ''anchor''
       \<noteq> Some (PStr ''pywebio-anchor-'')"
  by (simp add: put_text_def put_content_returns content_spec_def dict_update_def idle_world_def
      last_spec_add_server_msg)

text \<open>
  C1: a content operation called with \<open>before\<close> and \<open>after\<close> both non-empty raises
  and leaves the state as it was, so nothing is dispatched to any session. The error is
  the assertion error about \<open>before\<close> and \<open>after\<close> for \<open>put_text\<close>, \<open>put_html\<close>,
  \<open>put_markdown\<close>, \<open>put_code\<close>, \<open>put_buttons\<close>, \<open>put_file\<close> and the assembly step, and
  for \<open>put_table\<close> whenever the same call without \<open>before\<close> and \<open>after\<close> returns.
\<close>

theorem both_positions_raise:
  "truthy before \<Longrightarrow> truthy after \<Longrightarrow>
   put_content ty ws anchor before after other w = (Raises (AssertionError before_after_msg), w)
   \<and> put_text str inline anchor before after w = (Raises (AssertionError before_after_msg), w)
   \<and> put_html html anchor before after w = (Raises (AssertionError before_after_msg), w)
   \<and> put_markdown md strip_indent lstrip_flag anchor before after w
       = (Raises (AssertionError before_after_msg), w)
   \<and> put_code content langage anchor before after w = (Raises (AssertionError before_after_msg), w)
   \<and> put_buttons buttons onclick small save mutex_mode anchor before after w
       = (Raises (AssertionError before_after_msg), w)
   \<and> put_file name c anchor before after w = (Raises (AssertionError before_after_msg), w)
   \<and> fst (put_table tdata header anchor before after w) \<noteq> Returns ()
   \<and> snd (snd (put_table tdata header anchor before after w)) = w
   \<and> (fst (put_table tdata header anchor None None w) = Returns () \<longrightarrow>
        fst (put_table tdata header anchor before after w) = Raises (AssertionError before_after_msg))"
proof -
  assume b: "truthy before" and a: "truthy after"
  have md: "\<And>m s l. put_markdown m s l anchor before after w
                = (Raises (AssertionError before_after_msg), w)"
    using a b by (simp add: put_markdown_def put_content_raises)
  have t1: "fst (put_table tdata header anchor before after w) \<noteq> Returns ()"
    using a b by (simp add: put_table_fst split: result.splits)
  have t2: "snd (snd (put_table tdata header anchor before after w)) = w"
    by (cases "table_source tdata header"; cases "snd (table_source tdata header)")
       (simp_all add: put_table_def md)
  have t3: "fst (put_table tdata header anchor None None w) = Returns () \<longrightarrow>
        fst (put_table tdata header anchor before after w) = Raises (AssertionError before_after_msg)"
    using a b by (simp add: put_table_fst split: result.splits)
  show ?thesis
    using a b t1 t2 t3
    by (simp add: put_content_raises put_text_def put_html_def md put_code_def put_buttons_def
        put_file_def)
qed

text \<open>An instance of C1 in the idle state.\<close>

theorem both_positions_raise_witness:
  "truthy (Some ''a'') \<and> truthy (Some ''b'')
   \<and> put_text ''hi'' False None (Some ''a'') (Some ''b'') idle_world
       = (Raises (AssertionError before_after_msg), idle_world)
   \<and> put_buttons [PStr ''ok''] 0 False PNone False None (Some ''a'') (Some ''b'') idle_world
       = (Raises (AssertionError before_after_msg), idle_world)
   \<and> put_file ''f'' [77] None (Some ''a'') (Some ''b'') idle_world
       = (Raises (AssertionError before_after_msg), idle_world)
   \<and> fst (put_table [RList [CStr ''x'']] None None None None idle_world) = Returns ()
   \<and> fst (put_table [RList [CStr ''x'']] None None (Some ''a'') (Some ''b'') idle_world)
       = Raises (AssertionError before_after_msg)
   \<and> snd (snd (put_table [RList [CStr ''x'']] None None (Some ''a'') (Some ''b'') idle_world))
       = idle_world"
proof -
  have b: "truthy (Some ''a'')" and a: "truthy (Some ''b'')"
    by simp_all
  note t = both_positions_raise[OF b a, where w = idle_world and anchor = None
      and str = "''hi''" and inline = False and buttons = "[PStr ''ok'']" and onclick = 0
      and small = False and save = PNone and mutex_mode = False and name = "''f''" and c = "[77]"
      and tdata = "[RList [CStr ''x'']]" and header = None]
  have r: "fst (put_table [RList [CStr ''x'']] None None None None idle_world) = Returns ()"
    by (simp add: put_table_fst table_source_def prepend_header_def table_lines_def)
  show ?thesis
    using t r a b by simp
qed

text \<open>
  \<^verbatim>\<open>put_table\<close> builds the table before the check is reached: on an empty \<open>tdata\<close>
  with both \<open>before\<close> and \<open>after\<close> set the error is \<open>IndexError\<close>.
\<close>

theorem both_positions_table_counterexample:
  "truthy (Some ''a'') \<and> truthy (Some ''b'')
   \<and> put_table [] None None (Some ''a'') (Some ''b'') idle_world = (Raises IndexError, [], idle_world)"
  by (simp add: put_table_def table_source_def prepend_header_def table_lines_def)

text \<open>
  C4: for the content of four-space-indented lines \<open># H1\<close> and \<open>body\<close>, each ended by
  a newline, \<^verbatim>\<open>put_markdown\<close> with \<open>strip_indent=4\<close> sends \<open># H1\<close>, newline, \<open>body\<close>, with
  no newline at the end, and with \<open>lstrip\<close> it sends the same. A line whose first
  \<open>n\<close> characters are all spaces loses exactly these \<open>n\<close> characters under
  \<open>strip_indent = n\<close>. A line whose first \<open>n\<close> characters are not all spaces (it is
  shorter, or one of them is not a space) is left unchanged by \<open>strip_indent = n\<close>, while
  \<open>lstrip\<close> removes all of its leading whitespace; the two results differ whenever
  such a line starts with whitespace, as for a line indented by two spaces under
  \<open>strip_indent = 4\<close>.
\<close>

theorem markdown_stripping:
  "markdown_source ''    # H1\<newline>    body\<newline>'' 4 False = ''# H1\<newline>body''
   \<and> markdown_source ''    # H1\<newline>    body\<newline>'' 0 True = ''# H1\<newline>body''
   \<and> put_markdown md strip_indent lstrip_flag anchor before after w =
       put_content ''markdown'' None anchor before after
         [(''content'', PStr (markdown_source md strip_indent lstrip_flag))] w
   \<and> (n \<le> length line \<and> (\<forall>c \<in> set (take n line). c = CHR '' '') \<longrightarrow>
        strip_indent_line (int n) line = drop n line)
   \<and> (\<not> (n \<le> length line \<and> (\<forall>c \<in> set (take n line). c = CHR '' '')) \<longrightarrow>
        strip_indent_line (int n) line = line
        \<and> takeWhile isspace line @ lstrip line = line
        \<and> (lstrip line = [] \<or> \<not> isspace (hd (lstrip line)))
        \<and> (line \<noteq> [] \<and> isspace (hd line) \<longrightarrow> strip_indent_line (int n) line \<noteq> lstrip line))
   \<and> markdown_source ''  ab'' 4 False = ''  ab''
   \<and> markdown_source ''  ab'' 0 True = ''ab''"
proof (intro conjI impI)
  show "markdown_source ''    # H1\<newline>    body\<newline>'' 4 False = ''# H1\<newline>body''"
    by (rule example_strip_indent)
  show "markdown_source ''    # H1\<newline>    body\<newline>'' 0 True = ''# H1\<newline>body''"
    by (rule example_lstrip)
  show "put_markdown md strip_indent lstrip_flag anchor before after w =
       put_content ''markdown'' None anchor before after
         [(''content'', PStr (markdown_source md strip_indent lstrip_flag))] w"
    by (simp add: put_markdown_def)
  show "markdown_source ''  ab'' 4 False = ''  ab''"
    by (simp add: markdown_source_def splitlines_def strip_indent_line_def slice_to_def
        slice_from_def linebreak_def eval_nat_numeral)
  show "markdown_source ''  ab'' 0 True = ''ab''"
    by (simp add: markdown_source_def splitlines_def lstrip_def isspace_def linebreak_def)
next
  assume "n \<le> length line \<and> (\<forall>c \<in> set (take n line). c = CHR '' '')"
  then show "strip_indent_line (int n) line = drop n line"
    by (simp add: strip_indent_line_nat)
next
  assume h: "\<not> (n \<le> length line \<and> (\<forall>c \<in> set (take n line). c = CHR '' ''))"
  then show u: "strip_indent_line (int n) line = line"
    by (auto simp: strip_indent_line_nat)
  show "takeWhile isspace line @ lstrip line = line"
    by (simp add: lstrip_def)
  show "lstrip line = [] \<or> \<not> isspace (hd (lstrip line))"
    by (rule lstrip_no_leading_space)
  assume "line \<noteq> [] \<and> isspace (hd line)"
  then have "lstrip line \<noteq> line" by (simp add: lstrip_changes)
  with u show "strip_indent_line (int n) line \<noteq> lstrip line" by simp
qed

text \<open>An instance of C4: a line indented by two spaces, and one indented by four.\<close>

theorem markdown_stripping_witness:
  "\<not> (4 \<le> length ''  ab'' \<and> (\<forall>c \<in> set (take 4 ''  ab''). c = CHR '' ''))
   \<and> ''  ab'' \<noteq> [] \<and> isspace (hd ''  ab'')
   \<and> strip_indent_line (int 4) ''  ab'' = ''  ab''
   \<and> strip_indent_line (int 4) ''  ab'' \<noteq> lstrip ''  ab''
   \<and> 4 \<le> length ''    body'' \<and> set (take 4 ''    body'') \<subseteq> {CHR '' ''}
   \<and> strip_indent_line (int 4) ''    body'' = drop 4 ''    body''"
proof -
  have h4: "set (take 4 ''    body'') \<subseteq> {CHR '' ''}"
    by (simp add: eval_nat_numeral)
  have h1: "\<not> (4 \<le> length ''  ab'' \<and> (\<forall>c \<in> set (take 4 ''  ab''). c = CHR '' ''))"
    by simp
  have h2: "''  ab'' \<noteq> [] \<and> isspace (hd ''  ab'')"
    by (simp add: isspace_def)
  have h3: "4 \<le> length ''    body'' \<and> (\<forall>c \<in> set (take 4 ''    body''). c = CHR '' '')"
    by (simp add: eval_nat_numeral)
  note t1 = markdown_stripping[where n = 4 and line = "''  ab''",
      THEN conjunct2, THEN conjunct2, THEN conjunct2, THEN conjunct2, THEN conjunct1,
      THEN mp, OF h1]
  note a1 = t1[THEN conjunct1]
  note a2 = t1[THEN conjunct2, THEN conjunct2, THEN conjunct2, THEN mp, OF h2]
  note b = markdown_stripping[where n = 4 and line = "''    body''",
      THEN conjunct2, THEN conjunct2, THEN conjunct2, THEN conjunct1, THEN mp, OF h3]
  show ?thesis
    by (intro conjI h1 h2[THEN conjunct1] h2[THEN conjunct2] a1 a2 h3[THEN conjunct1] h4 b)
qed

text \<open>
  The source sent for the example content under \<open>strip_indent=4\<close> does not end with a
  newline: \<^verbatim>\<open>splitlines\<close> drops the final line break and \<^verbatim>\<open>join\<close> does not put one back.
\<close>

theorem markdown_trailing_newline_counterexample:
  "put_markdown ''    # H1\<newline>    body\<newline>'' 4 False None None None idle_world =
     (Returns (),
      add_server_msg 0
        (envelope ''output'' [(''type'', PStr ''markdown''), (''content'', PStr ''# H1\<newline>body'')])
        idle_world)
   \<and> ''# H1\<newline>body'' \<noteq> ''# H1\<newline>body\<newline>''"
  by (simp add: put_markdown_def example_strip_indent put_content_returns content_spec_def
      dict_update_def idle_world_def)

text \<open>
  C2: what \<^verbatim>\<open>put_table([["x","y"]])\<close> does. The slice assignment inserts two
  one-character strings in front of the caller's list instead of one row of two cells,
  so the table sent has four lines: a header of a single cell holding a space, a
  separator of a single \<open>----\<close> cell, a second single-cell line, and the row \<open>x\<close>, \<open>y\<close>.
  The table of the specification has three lines, with two cells in the header and in
  the separator; the last three equations show such lines.
\<close>

theorem put_table_single_row_actual:
  "put_table [RList [CStr ''x'', CStr ''y'']] None None None None idle_world =
     (Returns (),
      [RStr '' '', RStr '' '', RList [CStr ''x'', CStr ''y'']],
      add_server_msg 0
        (envelope ''output''
           [(''type'', PStr ''markdown''),
            (''content'', PStr ''| |\<newline>|----|\<newline>| |\<newline>|x|y|'')])
        idle_world)
   \<and> splitlines ''| |\<newline>|----|\<newline>| |\<newline>|x|y|'' = [''| |'', ''|----|'', ''| |'', ''|x|y|'']
   \<and> table_line [[], []] = ''|||''
   \<and> table_line [''----'', ''----''] = ''|----|----|''
   \<and> table_line [''x'', ''y''] = ''|x|y|''"
  by (simp add: put_table_def table_source_def prepend_header_def table_lines_def table_line_def
      quote_def replace_pipe_def put_markdown_def markdown_source_plain put_content_returns
      content_spec_def dict_update_def idle_world_def splitlines_def linebreak_def
      eval_nat_numeral)

text \<open>
  C3: what \<^verbatim>\<open>_format_button\<close> does on the three shapes. A bare value and a dictionary
  with \<open>value\<close> and \<open>label\<close> are normalised as specified, in order, and so is a pair
  given as a list. A pair given as a tuple is not an instance of \<^verbatim>\<open>list\<close>: it takes the
  branch of the bare values and becomes both the value and the label. A dictionary
  without \<open>label\<close> and a list of one element raise the assertion error; a tuple of one
  element does not.
\<close>

theorem format_button_shapes:
  "format_button
     [PStr ''a'', PTuple [PStr ''b'', PStr ''Bee''],
      PDict [(''value'', PStr ''c''), (''label'', PStr ''Cee'')]] =
   Returns
     [PDict [(''value'', PStr ''a''), (''label'', PStr ''a'')],
      PDict [(''value'', PTuple [PStr ''b'', PStr ''Bee'']),
             (''label'', PTuple [PStr ''b'', PStr ''Bee''])],
      PDict [(''value'', PStr ''c''), (''label'', PStr ''Cee'')]]
   \<and> format_button
     [PStr ''a'', PList [PStr ''b'', PStr ''Bee''],
      PDict [(''value'', PStr ''c''), (''label'', PStr ''Cee'')]] =
   Returns
     [PDict [(''value'', PStr ''a''), (''label'', PStr ''a'')],
      PDict [(''value'', PStr ''b''), (''label'', PStr ''Bee'')],
      PDict [(''value'', PStr ''c''), (''label'', PStr ''Cee'')]]
   \<and> format_button [PDict [(''value'', PStr ''c'')]] =
       Raises (AssertionError ''actions item must have value and label key'')
   \<and> format_button [PList [PStr ''b'']] = Raises (AssertionError ''actions item format error'')
   \<and> format_button [PTuple [PStr ''b'']] =
       Returns [PDict [(''value'', PTuple [PStr ''b'']), (''label'', PTuple [PStr ''b''])]]"
  by (simp add: format_button_def dict_has_def)

text \<open>
  C10: with no header, or an empty one, and a \<open>tdata\<close> of exactly one row that has at
  least one cell, \<^verbatim>\<open>put_table\<close> changes the caller's list in place by putting elements in
  front of it, so the list is longer after the call. With no row or with two or more
  rows, or with a non-empty header, the caller's list is left as it was.
\<close>

theorem table_mutation:
  "((header = None \<or> header = Some []) \<and> 0 < row_len r \<longrightarrow>
      (\<exists>pre. pre \<noteq> [] \<and> fst (snd (put_table [r] header anchor before after w)) = pre @ [r])
      \<and> length [r] < length (fst (snd (put_table [r] header anchor before after w))))
   \<and> (length tdata \<noteq> 1 \<longrightarrow> fst (snd (put_table tdata header anchor before after w)) = tdata)
   \<and> (header = Some h \<and> h \<noteq> [] \<longrightarrow>
        fst (snd (put_table tdata header anchor before after w)) = tdata)"
proof (intro conjI impI)
  assume a: "(header = None \<or> header = Some []) \<and> 0 < row_len r"
  then have c: "fst (snd (put_table [r] header anchor before after w))
                 = replicate (row_len r) (RStr '' '') @ [r]"
    by (simp add: put_table_callers table_source_alias prepend_header_def)
  from a have "replicate (row_len r) (RStr '' '') \<noteq> []" by simp
  with c show "\<exists>pre. pre \<noteq> [] \<and> fst (snd (put_table [r] header anchor before after w)) = pre @ [r]"
    by blast
  from a c show "length [r] < length (fst (snd (put_table [r] header anchor before after w)))"
    by simp
next
  assume n: "length tdata \<noteq> 1"
  then have p: "prepend_header tdata = tdata"
    by (cases tdata; cases "tl tdata") (simp_all add: prepend_header_def)
  show "fst (snd (put_table tdata header anchor before after w)) = tdata"
  proof (cases "header = None \<or> header = Some []")
    case True
    then show ?thesis by (simp add: put_table_callers table_source_alias p)
  next
    case False
    then obtain h' where "header = Some h'" "h' \<noteq> []" by (cases header) auto
    then show ?thesis by (simp add: put_table_callers table_source_rebound)
  qed
next
  assume "header = Some h \<and> h \<noteq> []"
  then show "fst (snd (put_table tdata header anchor before after w)) = tdata"
    by (simp add: put_table_callers table_source_rebound)
qed

text \<open>An instance of C10 for each of its three cases.\<close>

theorem table_mutation_witness:
  "0 < row_len (RList [CStr ''x'', CStr ''y''])
   \<and> length [RList [CStr ''x'', CStr ''y'']]
       < length (fst (snd (put_table [RList [CStr ''x'', CStr ''y'']] None None None None idle_world)))
   \<and> length [RList [CStr ''x''], RList [CStr ''y'']] \<noteq> 1
   \<and> fst (snd (put_table [RList [CStr ''x''], RList [CStr ''y'']] None None None None idle_world))
       = [RList [CStr ''x''], RList [CStr ''y'']]
   \<and> fst (snd (put_table [RDict [(''a'', CInt 1)]] (Some [''a'']) None None None idle_world))
       = [RDict [(''a'', CInt 1)]]"
proof -
  have h1: "(None = None \<or> None = Some ([]::string list)) \<and> 0 < row_len (RList [CStr ''x'', CStr ''y''])"
    by simp
  have h2: "length [RList [CStr ''x''], RList [CStr ''y'']] \<noteq> 1"
    by simp
  have h3: "Some [''a''] = Some [''a''] \<and> [''a''] \<noteq> []"
    by simp
  note a = table_mutation[where header = None and r = "RList [CStr ''x'', CStr ''y'']"
      and anchor = None and before = None and after = None and w = idle_world,
      THEN conjunct1, THEN mp, OF h1, THEN conjunct2]
  note b = table_mutation[where header = None and tdata = "[RList [CStr ''x''], RList [CStr ''y'']]"
      and anchor = None and before = None and after = None and w = idle_world,
      THEN conjunct2, THEN conjunct1, THEN mp, OF h2]
  note c = table_mutation[where header = "Some [''a'']" and h = "[''a'']"
      and tdata = "[RDict [(''a'', CInt 1)]]"
      and anchor = None and before = None and after = None and w = idle_world,
      THEN conjunct2, THEN conjunct2, THEN mp, OF h3]
  show ?thesis
    by (intro conjI h1[THEN conjunct2] a h2 b c)
qed

text \<open>
  An empty header is a header argument, yet the caller's one-row list is changed; and a
  single row without cells leaves the caller's list at its length.
\<close>

theorem table_mutation_counterexample:
  "fst (snd (put_table [RList [CStr ''x'']] (Some []) None None None idle_world))
     = [RStr '' '', RList [CStr ''x'']]
   \<and> fst (put_table [RList []] None None None None idle_world) = Returns ()
   \<and> fst (snd (put_table [RList []] None None None None idle_world)) = [RList []]"
  by (simp add: put_table_callers put_table_fst table_source_def prepend_header_def
      table_lines_def)

end
